theory Spec2Isabelle
  imports Complex_Main "HOL-Library.Word"
begin

section \<open>Single-precision arithmetic\<close>

text \<open>
  The program stores axis positions as C++ \<open>float\<close>. A finite binary32 value is a
  rational number, so the model computes with \<open>rat\<close> and rounds the exact result of
  an operation to the nearest binary32 value, ties to the even significand, as IEEE 754
  prescribes for the default rounding mode. The significand has 24 bits; the exponent
  of a normal number lies between -126 and 127, and smaller magnitudes are subnormal
  with the spacing of exponent -126.

  Overflow to infinity is left out: the only rounded operation of the program is the
  quotient of a 16-bit integer by 32767, whose magnitude is at most 32768 / 32767.
\<close>

definition round_half_even :: "rat \<Rightarrow> int" where
  "round_half_even x =
     (let f = \<lfloor>x\<rfloor>; r = x - of_int f
      in if r < 1 / 2 then f
         else if 1 / 2 < r then f + 1
         else if even f then f else f + 1)"

text \<open>The binary exponent: the largest \<open>e\<close> in -125 .. 127 with \<open>2 ^ e \<le> x\<close>,
  and -126 when there is none, searched downwards from \<open>k - 126\<close>.\<close>

fun f32_exponent_from :: "nat \<Rightarrow> rat \<Rightarrow> int" where
  "f32_exponent_from 0 x = - 126"
| "f32_exponent_from (Suc k) x =
     (if power_int 2 (int (Suc k) - 126) \<le> x then int (Suc k) - 126
      else f32_exponent_from k x)"

definition f32_exponent :: "rat \<Rightarrow> int" where
  "f32_exponent x = f32_exponent_from 253 \<bar>x\<bar>"

definition f32_round :: "rat \<Rightarrow> rat" where
  "f32_round x =
     (let u = power_int 2 (f32_exponent x - 23)
      in of_int (round_half_even (x / u)) * u)"

text \<open>\<open>static_cast<float>\<close> of a \<open>Sint16\<close> is exact: 16 bits fit the significand.\<close>

definition f32_of_sint16 :: "16 word \<Rightarrow> rat" where
  "f32_of_sint16 v = of_int (sint v)"

definition f32_div :: "rat \<Rightarrow> rat \<Rightarrow> rat" where
  "f32_div x y = f32_round (x / y)"

section \<open>Axis normalisation\<close>

text \<open>
  Lines 140 to 149 of \<open>handleAxisEvent\<close>:
  \<^verbatim>\<open>
    float value = static_cast<float>(event.value) / 32767.0f;
    if (value > 1.0f)  value = 1.0f;
    if (value < -1.0f) value = -1.0f;
    constexpr float DEADZONE = 0.1f;
    if (fabs(value) < DEADZONE) value = 0.0f;
  \<close>
  The literal \<open>0.1f\<close> is the binary32 value nearest to one tenth.
\<close>

definition DEADZONE :: rat where
  "DEADZONE = f32_round (1 / 10)"

definition normalizeAxis :: "16 word \<Rightarrow> rat" where
  "normalizeAxis raw =
     (let v0 = f32_div (f32_of_sint16 raw) 32767;
          v1 = (if v0 > 1 then 1 else v0);
          v2 = (if v1 < - 1 then - 1 else v1)
      in if \<bar>v2\<bar> < DEADZONE then 0 else v2)"

text \<open>The contract of the specification, on exact rationals: divide by 32767, clamp
  to the unit interval, snap magnitudes below one tenth to zero.\<close>

definition clamp_unit :: "rat \<Rightarrow> rat" where
  "clamp_unit q = (if q > 1 then 1 else if q < - 1 then - 1 else q)"

definition normalizeAxis_spec :: "int \<Rightarrow> rat" where
  "normalizeAxis_spec raw =
     (let c = clamp_unit (of_int raw / 32767) in if \<bar>c\<bar> < 1 / 10 then 0 else c)"

section \<open>The joystick object\<close>

text \<open>\<open>struct JoystickData\<close>: the latest position of every axis and button.\<close>

record JoystickData =
  axes :: "rat list"
  buttons :: "bool list"

text \<open>
  What the program reads from an open \<open>SDL_Joystick *\<close>: \<open>SDL_JoystickName\<close>,
  \<open>SDL_JoystickInstanceID\<close>, \<open>SDL_JoystickNumAxes\<close> and
  \<open>SDL_JoystickNumButtons\<close>. SDL reports the two counts of an open device as
  non-negative ints, so they are natural numbers here.
\<close>

record SDL_Joystick =
  name :: string
  instance_id :: "32 word"
  num_axes :: nat
  num_buttons :: nat

text \<open>The fields of \<open>SDL_JoyAxisEvent\<close> (\<open>Uint8 axis\<close>, \<open>Sint16 value\<close>) and of
  \<open>SDL_JoyButtonEvent\<close> (\<open>Uint8 button\<close>, \<open>Uint8 state\<close>) that the handlers read.\<close>

record SDL_JoyAxisEvent =
  axis :: "8 word"
  raw_value :: "16 word"

record SDL_JoyButtonEvent =
  button :: "8 word"
  state :: "8 word"

definition SDL_PRESSED :: "8 word" where
  "SDL_PRESSED = 1"

text \<open>The event types of the \<open>switch\<close> in \<open>eventLoop\<close>; every other type has no case.
  The device events carry \<open>event.jdevice.which\<close>.\<close>

datatype SDL_Event =
    SDL_JOYAXISMOTION SDL_JoyAxisEvent
  | SDL_JOYBUTTONDOWN SDL_JoyButtonEvent
  | SDL_JOYBUTTONUP SDL_JoyButtonEvent
  | SDL_JOYDEVICEADDED "32 word"
  | SDL_JOYDEVICEREMOVED "32 word"
  | SDL_OTHER

text \<open>The lines the object writes to \<open>std::cout\<close>.\<close>

datatype console_line = Joystick_connected SDL_Joystick | Joystick_disconnected

text \<open>The members \<open>joystick_\<close>, \<open>current_data_\<close> and \<open>running_\<close> of
  \<open>class SimpleJoystick\<close>, without the trailing underscore, which a name in
  Isabelle cannot have; \<open>joystick\<close> is \<open>None\<close> for \<open>nullptr\<close>. \<open>cout\<close> collects
  what the object has printed.\<close>

record SimpleJoystick =
  joystick :: "SDL_Joystick option"
  current_data :: JoystickData
  running :: bool
  cout :: "console_line list"

text \<open>\<open>SDL_JoystickOpen\<close>, as the input source answers it at one moment.\<close>

type_synonym input_source = "32 word \<Rightarrow> SDL_Joystick option"

datatype error = SDL_init_failed | Out_of_bounds nat

text \<open>\<open>std::vector::resize(n, v)\<close>: a longer vector is cut to its first \<open>n\<close>
  elements, a shorter one keeps its elements and is filled up with copies of \<open>v\<close>.\<close>

definition vector_resize :: "nat \<Rightarrow> 'a \<Rightarrow> 'a list \<Rightarrow> 'a list" where
  "vector_resize n v xs =
     (if n \<le> length xs then take n xs else xs @ replicate (n - length xs) v)"

text \<open>\<open>initJoystick\<close> is called at two places, both behind \<open>if (joystick_)\<close>; the
  branch for a null handle is never taken.\<close>

definition initJoystick :: "SimpleJoystick \<Rightarrow> SimpleJoystick" where
  "initJoystick js =
     (case joystick js of
        None \<Rightarrow> js
      | Some d \<Rightarrow>
          js\<lparr>current_data :=
               \<lparr>axes = vector_resize (num_axes d) 0 (axes (current_data js)),
                buttons = vector_resize (num_buttons d) False (buttons (current_data js))\<rparr>,
             cout := cout js @ [Joystick_connected d]\<rparr>)"

text \<open>The constructor: \<open>SDL_Init\<close> may fail, which throws; otherwise the first
  joystick is opened when \<open>SDL_NumJoysticks() > 0\<close>, and the event thread is started.\<close>

definition SimpleJoystick_new :: "bool \<Rightarrow> int \<Rightarrow> input_source \<Rightarrow> error + SimpleJoystick" where
  "SimpleJoystick_new init_ok num_joysticks sdl_open =
     (if \<not> init_ok then Inl SDL_init_failed
      else
        let js0 = \<lparr>joystick = None, current_data = \<lparr>axes = [], buttons = []\<rparr>,
                   running = False, cout = []\<rparr>;
            js1 = (if num_joysticks > 0 then
                     (let js = js0\<lparr>joystick := sdl_open 0\<rparr>
                      in if joystick js \<noteq> None then initJoystick js else js)
                   else js0)
        in Inr (js1\<lparr>running := True\<rparr>))"

definition getData :: "SimpleJoystick \<Rightarrow> JoystickData" where
  "getData js = current_data js"

definition isRunning :: "SimpleJoystick \<Rightarrow> bool" where
  "isRunning js = running js"

definition stop :: "SimpleJoystick \<Rightarrow> SimpleJoystick" where
  "stop js = js\<lparr>running := False\<rparr>"

definition handleAxisEvent :: "SimpleJoystick \<Rightarrow> SDL_JoyAxisEvent \<Rightarrow> SimpleJoystick" where
  "handleAxisEvent js event =
     (if joystick js = None then js
      else
        let v = normalizeAxis (raw_value event)
        in if unat (axis event) < length (axes (current_data js))
           then js\<lparr>current_data :=
                     (current_data js)\<lparr>axes := (axes (current_data js))[unat (axis event) := v]\<rparr>\<rparr>
           else js)"

definition handleButtonEvent :: "SimpleJoystick \<Rightarrow> SDL_JoyButtonEvent \<Rightarrow> SimpleJoystick" where
  "handleButtonEvent js event =
     (if joystick js = None then js
      else if unat (button event) < length (buttons (current_data js))
      then js\<lparr>current_data :=
                (current_data js)\<lparr>buttons :=
                   (buttons (current_data js))[unat (button event) := (state event = SDL_PRESSED)]\<rparr>\<rparr>
      else js)"

text \<open>The body of the inner loop of \<open>eventLoop\<close>: the \<open>switch\<close> on one polled event.\<close>

fun dispatch :: "input_source \<Rightarrow> SimpleJoystick \<Rightarrow> SDL_Event \<Rightarrow> SimpleJoystick" where
  "dispatch sdl_open js (SDL_JOYAXISMOTION e) = handleAxisEvent js e"
| "dispatch sdl_open js (SDL_JOYBUTTONDOWN e) = handleButtonEvent js e"
| "dispatch sdl_open js (SDL_JOYBUTTONUP e) = handleButtonEvent js e"
| "dispatch sdl_open js (SDL_JOYDEVICEADDED which) =
     (if joystick js = None then
        (let js' = js\<lparr>joystick := sdl_open which\<rparr>
         in if joystick js' \<noteq> None then initJoystick js' else js')
      else js)"
| "dispatch sdl_open js (SDL_JOYDEVICEREMOVED which) =
     (case joystick js of
        None \<Rightarrow> js
      | Some d \<Rightarrow>
          if which = instance_id d
          then js\<lparr>joystick := None, cout := cout js @ [Joystick_disconnected]\<rparr>
          else js)"
| "dispatch sdl_open js SDL_OTHER = js"

text \<open>\<open>while (SDL_PollEvent(&event))\<close>: the queued events in order, each with the
  input source as it is when the event is handled.\<close>

fun drain :: "SimpleJoystick \<Rightarrow> (input_source \<times> SDL_Event) list \<Rightarrow> SimpleJoystick" where
  "drain js [] = js"
| "drain js ((sdl_open, event) # queue) = drain (dispatch sdl_open js event) queue"

text \<open>\<open>while (running_)\<close>: one queue per pass. The loop ends when the flag is
  cleared; the list bounds the passes that are looked at.\<close>

fun eventLoop :: "SimpleJoystick \<Rightarrow> (input_source \<times> SDL_Event) list list \<Rightarrow> SimpleJoystick" where
  "eventLoop js [] = js"
| "eventLoop js (queue # queues) =
     (if running js then eventLoop (drain js queue) queues else js)"

section \<open>The main loop\<close>

text \<open>What one iteration prints: the status line with every axis and button, and a
  line \<open>Command n\<close> for each command sent.\<close>

datatype main_output = Status JoystickData | Command nat

text \<open>Lines 309 to 324: the command of button \<open>i\<close>.\<close>

definition button_command :: "nat \<Rightarrow> main_output list" where
  "button_command i =
     (if i = 0 then [Command 3]
      else if i = 1 then [Command 1]
      else if i = 2 then [Command 2]
      else if i = 3 then [Command 4]
      else [])"

text \<open>
  Lines 303 to 326, the loop over the buttons from index \<open>i\<close> on. The condition
  \<open>data.buttons[i] && !last_button_state[i]\<close> reads \<open>last_button_state[i]\<close> only when
  the button is pressed; reading it past the end of the vector is undefined behaviour
  and is the error \<open>Out_of_bounds i\<close> here.
\<close>

function button_loop :: "bool list \<Rightarrow> bool list \<Rightarrow> nat \<Rightarrow> error + main_output list" where
  "button_loop data_buttons last_button_state i =
     (if i < length data_buttons then
        (if data_buttons ! i then
           (if i < length last_button_state then
              (case button_loop data_buttons last_button_state (Suc i) of
                 Inl e \<Rightarrow> Inl e
               | Inr out \<Rightarrow>
                   Inr ((if \<not> last_button_state ! i then button_command i else []) @ out))
            else Inl (Out_of_bounds i))
         else button_loop data_buttons last_button_state (Suc i))
      else Inr [])"
  by pat_completeness auto
termination
  by (relation "measure (\<lambda>(data_buttons, last_button_state, i). length data_buttons - i)") auto

declare button_loop.simps [simp del]

text \<open>The static local \<open>last_button_state\<close>: \<open>None\<close> until its declaration is first
  executed, which initialises it with the buttons just read.\<close>

record main_state =
  last_button_state :: "bool list option"

text \<open>The body of \<open>while (program_running)\<close>, lines 280 to 329.\<close>

definition main_iteration :: "SimpleJoystick \<Rightarrow> main_state \<Rightarrow> error + main_state \<times> main_output list" where
  "main_iteration js ms =
     (if isRunning js then
        (let data = getData js;
             previous = (case last_button_state ms of None \<Rightarrow> buttons data | Some l \<Rightarrow> l)
         in case button_loop (buttons data) previous 0 of
              Inl e \<Rightarrow> Inl e
            | Inr commands \<Rightarrow>
                Inr (ms\<lparr>last_button_state := Some (buttons data)\<rparr>, Status data # commands))
      else Inr (ms, []))"

text \<open>Every stored axis value lies in the unit interval, and none lies strictly
  between zero and the deadzone.\<close>

definition axes_ok :: "SimpleJoystick \<Rightarrow> bool" where
  "axes_ok js \<longleftrightarrow>
     (\<forall>v \<in> set (axes (current_data js)). - 1 \<le> v \<and> v \<le> 1 \<and> (\<bar>v\<bar> < DEADZONE \<longrightarrow> v = 0))"

section \<open>Properties of the rounding\<close>

lemma round_half_even_error: "\<bar>of_int (round_half_even x) - x\<bar> \<le> 1 / 2"
proof -
  have lo: "of_int \<lfloor>x\<rfloor> \<le> x" and hi: "x < of_int \<lfloor>x\<rfloor> + 1"
    by linarith+
  show ?thesis
    using lo hi by (auto simp: round_half_even_def Let_def abs_le_iff)
qed

lemma f32_exponent_from_sound:
  "f32_exponent_from k x = - 126 \<or> power_int 2 (f32_exponent_from k x) \<le> x"
  by (induction k) auto

lemma f32_exponent_small:
  assumes "\<bar>x\<bar> < 2"
  shows "f32_exponent x \<le> 0"
proof (rule ccontr)
  assume "\<not> f32_exponent x \<le> 0"
  then have pos: "1 \<le> f32_exponent x" by simp
  then have "power_int (2::rat) (f32_exponent x) \<le> \<bar>x\<bar>"
    using f32_exponent_from_sound [of 253 "\<bar>x\<bar>"] by (auto simp: f32_exponent_def)
  moreover have "power_int (2::rat) 1 \<le> power_int 2 (f32_exponent x)"
    using pos by (intro power_int_increasing) auto
  ultimately show False using assms by simp
qed

lemma f32_round_error:
  assumes "\<bar>x\<bar> < 2"
  shows "\<bar>f32_round x - x\<bar> \<le> 1 / 2 ^ 24"
proof -
  define u :: rat where "u = power_int 2 (f32_exponent x - 23)"
  have upos: "0 < u" by (simp add: u_def)
  have "u \<le> power_int 2 (- 23)"
    unfolding u_def using f32_exponent_small [OF assms]
    by (intro power_int_increasing) auto
  then have ule: "u \<le> 1 / 2 ^ 23"
    by (simp add: power_int_minus divide_simps)
  have "f32_round x - x = (of_int (round_half_even (x / u)) - x / u) * u"
    using upos by (simp add: f32_round_def u_def [symmetric] Let_def algebra_simps)
  then have "\<bar>f32_round x - x\<bar> = \<bar>of_int (round_half_even (x / u)) - x / u\<bar> * u"
    using upos by (simp add: abs_mult)
  also have "\<dots> \<le> (1 / 2) * u"
    using round_half_even_error [of "x / u"] upos by (intro mult_right_mono) auto
  also have "\<dots> \<le> (1 / 2) * (1 / 2 ^ 23)"
    using ule by simp
  finally show ?thesis by simp
qed

lemma f32_round_one: "f32_round 1 = 1"
  by code_simp

lemma f32_round_minus_one: "f32_round (- 1) = - 1"
  by code_simp

lemma f32_round_zero: "f32_round 0 = 0"
  by code_simp

lemma DEADZONE_value: "DEADZONE = 13421773 / 134217728"
  unfolding DEADZONE_def by code_simp

lemma near_bounds:
  fixes v q :: rat
  assumes "\<bar>v - q\<bar> \<le> e" "lo \<le> q" "q \<le> hi"
  shows "lo - e \<le> v" "v \<le> hi + e"
  using assms by linarith+

lemma quotient_bounds:
  fixes n :: int
  assumes "a \<le> n" "n \<le> b"
  shows "rat_of_int a / 32767 \<le> rat_of_int n / 32767" "rat_of_int n / 32767 \<le> rat_of_int b / 32767"
  using assms by (simp_all add: divide_right_mono)

lemma quotient_round_near:
  fixes n :: int
  assumes "- 32768 \<le> n" "n \<le> 32767"
  shows "\<bar>f32_div (of_int n) 32767 - of_int n / 32767\<bar> \<le> 1 / 2 ^ 24"
proof -
  have "rat_of_int (- 32768) / 32767 \<le> rat_of_int n / 32767" "rat_of_int n / 32767 \<le> rat_of_int 32767 / 32767"
    using assms by (rule quotient_bounds)+
  then have "- 2 < rat_of_int n / 32767" "rat_of_int n / 32767 < 2"
    by (simp_all del: of_int_minus)
  then have "\<bar>rat_of_int n / 32767\<bar> < 2" by linarith
  then show ?thesis unfolding f32_div_def by (rule f32_round_error)
qed

lemma quotient_round_between:
  fixes n :: int
  assumes "a \<le> n" "n \<le> b" "- 32768 \<le> a" "b \<le> 32767"
  shows "rat_of_int a / 32767 - 1 / 2 ^ 24 \<le> f32_div (of_int n) 32767"
    "f32_div (of_int n) 32767 \<le> rat_of_int b / 32767 + 1 / 2 ^ 24"
proof -
  have e: "\<bar>f32_div (of_int n) 32767 - of_int n / 32767\<bar> \<le> 1 / 2 ^ 24"
    using assms by (intro quotient_round_near) auto
  show "rat_of_int a / 32767 - 1 / 2 ^ 24 \<le> f32_div (of_int n) 32767"
    using e quotient_bounds [OF assms(1,2)] by (rule near_bounds)
  show "f32_div (of_int n) 32767 \<le> rat_of_int b / 32767 + 1 / 2 ^ 24"
    using e quotient_bounds [OF assms(1,2)] by (rule near_bounds)
qed

lemma quotient_small:
  fixes n :: int
  assumes "- 3276 \<le> n" "n \<le> 3276"
  shows "\<bar>f32_div (of_int n) 32767\<bar> < DEADZONE" "\<bar>rat_of_int n / 32767\<bar> < 1 / 10"
proof -
  have "rat_of_int (- 3276) / 32767 - 1 / 2 ^ 24 \<le> f32_div (of_int n) 32767"
    "f32_div (of_int n) 32767 \<le> rat_of_int 3276 / 32767 + 1 / 2 ^ 24"
    using assms by (rule quotient_round_between; simp)+
  then have "- (13421773 / 134217728) < f32_div (of_int n) 32767"
    "f32_div (of_int n) 32767 < 13421773 / 134217728"
    by simp_all
  then show "\<bar>f32_div (of_int n) 32767\<bar> < DEADZONE"
    unfolding DEADZONE_value by linarith
  have "rat_of_int (- 3276) / 32767 \<le> rat_of_int n / 32767" "rat_of_int n / 32767 \<le> rat_of_int 3276 / 32767"
    using assms by (rule quotient_bounds)+
  then have "- (1 / 10) < rat_of_int n / 32767" "rat_of_int n / 32767 < 1 / 10"
    by simp_all
  then show "\<bar>rat_of_int n / 32767\<bar> < 1 / 10"
    by linarith
qed

lemma quotient_large_pos:
  fixes n :: int
  assumes "3277 \<le> n" "n \<le> 32766"
  shows "DEADZONE \<le> f32_div (of_int n) 32767" "f32_div (of_int n) 32767 < 1"
    "1 / 10 \<le> rat_of_int n / 32767" "rat_of_int n / 32767 < 1"
proof -
  have "rat_of_int 3277 / 32767 - 1 / 2 ^ 24 \<le> f32_div (of_int n) 32767"
    "f32_div (of_int n) 32767 \<le> rat_of_int 32766 / 32767 + 1 / 2 ^ 24"
    using assms by (rule quotient_round_between; simp)+
  then show "DEADZONE \<le> f32_div (of_int n) 32767" "f32_div (of_int n) 32767 < 1"
    unfolding DEADZONE_value by simp_all
  have "rat_of_int 3277 / 32767 \<le> rat_of_int n / 32767" "rat_of_int n / 32767 \<le> rat_of_int 32766 / 32767"
    using assms by (rule quotient_bounds)+
  then show "1 / 10 \<le> rat_of_int n / 32767" "rat_of_int n / 32767 < 1"
    by simp_all
qed

lemma quotient_large_neg:
  fixes n :: int
  assumes "- 32766 \<le> n" "n \<le> - 3277"
  shows "f32_div (of_int n) 32767 \<le> - DEADZONE" "- 1 < f32_div (of_int n) 32767"
    "rat_of_int n / 32767 \<le> - (1 / 10)" "- 1 < rat_of_int n / 32767"
proof -
  have "rat_of_int (- 32766) / 32767 - 1 / 2 ^ 24 \<le> f32_div (of_int n) 32767"
    "f32_div (of_int n) 32767 \<le> rat_of_int (- 3277) / 32767 + 1 / 2 ^ 24"
    using assms by (rule quotient_round_between; simp)+
  then show "f32_div (of_int n) 32767 \<le> - DEADZONE" "- 1 < f32_div (of_int n) 32767"
    unfolding DEADZONE_value by simp_all
  have "rat_of_int (- 32766) / 32767 \<le> rat_of_int n / 32767" "rat_of_int n / 32767 \<le> rat_of_int (- 3277) / 32767"
    using assms by (rule quotient_bounds)+
  then show "rat_of_int n / 32767 \<le> - (1 / 10)" "- 1 < rat_of_int n / 32767"
    by simp_all
qed

lemma quotient_min: "f32_div (of_int (- 32768)) 32767 < - 1"
proof -
  have "f32_div (of_int (- 32768)) 32767 \<le> rat_of_int (- 32768) / 32767 + 1 / 2 ^ 24"
    by (rule quotient_round_between(2) [of "- 32768"]) simp_all
  then show ?thesis by simp
qed

lemma quotient_max: "f32_div (of_int 32767) 32767 = 1"
  by (simp add: f32_div_def f32_round_one)

lemma quotient_neg_max: "f32_div (of_int (- 32767)) 32767 = - 1"
  by (simp add: f32_div_def f32_round_minus_one)

lemma normalizeAxis_refines: "normalizeAxis raw = f32_round (normalizeAxis_spec (sint raw))"
proof -
  define n where "n = sint raw"
  have assms: "- 32768 \<le> n" "n \<le> 32767"
    using sint_ge [of raw] sint_lt [of raw] by (simp_all add: n_def)
  have "normalizeAxis raw = f32_round (normalizeAxis_spec n)"
  proof -
  consider "n = - 32768" | "n = - 32767" | "- 32766 \<le> n \<and> n \<le> - 3277" | "- 3276 \<le> n \<and> n \<le> 3276"
    | "3277 \<le> n \<and> n \<le> 32766" | "n = 32767"
    using assms by linarith
  then show ?thesis
  proof cases
    case 1
    have "f32_div (of_int n) 32767 < - 1" unfolding 1 by (rule quotient_min)
    then show ?thesis
      by (simp add: normalizeAxis_def f32_of_sint16_def n_def [symmetric] Let_def DEADZONE_value normalizeAxis_spec_def clamp_unit_def 1 f32_round_minus_one)
  next
    case 2
    then show ?thesis using quotient_neg_max
      by (simp add: normalizeAxis_def f32_of_sint16_def n_def [symmetric] Let_def DEADZONE_value normalizeAxis_spec_def clamp_unit_def f32_round_minus_one)
  next
    case 3
    then have *: "f32_div (of_int n) 32767 \<le> - DEADZONE" "- 1 < f32_div (of_int n) 32767"
    "(of_int n / 32767 :: rat) \<le> - (1 / 10)" "- 1 < (of_int n / 32767 :: rat)"
      using quotient_large_neg [of n] by blast+
    have dz: "0 < DEADZONE" by (simp add: DEADZONE_value)
    from * dz show ?thesis
      by (simp add: normalizeAxis_def f32_of_sint16_def n_def [symmetric] Let_def normalizeAxis_spec_def clamp_unit_def f32_div_def)
  next
    case 4
    then have *: "\<bar>f32_div (of_int n) 32767\<bar> < DEADZONE" "\<bar>of_int n / 32767 :: rat\<bar> < 1 / 10"
      using quotient_small [of n] by blast+
    have dz: "DEADZONE < 1" by (simp add: DEADZONE_value)
    from * dz have "\<not> f32_div (of_int n) 32767 > 1" "\<not> f32_div (of_int n) 32767 < - 1"
      "\<not> rat_of_int n / 32767 > 1" "\<not> rat_of_int n / 32767 < - 1"
      by linarith+
    with * show ?thesis
      by (simp add: normalizeAxis_def f32_of_sint16_def n_def [symmetric] Let_def normalizeAxis_spec_def clamp_unit_def f32_round_zero)
  next
    case 5
    then have *: "DEADZONE \<le> f32_div (of_int n) 32767" "f32_div (of_int n) 32767 < 1"
    "1 / 10 \<le> (of_int n / 32767 :: rat)" "(of_int n / 32767 :: rat) < 1"
      using quotient_large_pos [of n] by blast+
    have dz: "0 < DEADZONE" by (simp add: DEADZONE_value)
    from * dz show ?thesis
      by (simp add: normalizeAxis_def f32_of_sint16_def n_def [symmetric] Let_def normalizeAxis_spec_def clamp_unit_def f32_div_def)
  next
    case 6
    then show ?thesis using quotient_max
      by (simp add: normalizeAxis_def f32_of_sint16_def n_def [symmetric] Let_def DEADZONE_value normalizeAxis_spec_def clamp_unit_def f32_round_one)
  qed
  qed
  then show ?thesis by (simp add: n_def)
qed

lemma normalizeAxis_range: "- 1 \<le> normalizeAxis raw \<and> normalizeAxis raw \<le> 1"
  by (simp add: normalizeAxis_def Let_def)

lemma normalizeAxis_deadzone: "\<bar>normalizeAxis raw\<bar> < DEADZONE \<Longrightarrow> normalizeAxis raw = 0"
  by (simp add: normalizeAxis_def Let_def split: if_splits)

section \<open>Properties of the store\<close>

lemma length_vector_resize: "length (vector_resize n v xs) = n"
  by (simp add: vector_resize_def)

lemma vector_resize_empty: "vector_resize n v [] = replicate n v"
  by (simp add: vector_resize_def)

lemma set_vector_resize: "set (vector_resize n v xs) \<subseteq> insert v (set xs)"
  by (auto simp: vector_resize_def dest: in_set_takeD)

lemma initJoystick_lengths:
  assumes "joystick js = Some d"
  shows "length (axes (getData (initJoystick js))) = num_axes d"
    and "length (buttons (getData (initJoystick js))) = num_buttons d"
  using assms by (simp_all add: initJoystick_def getData_def length_vector_resize)

lemma initJoystick_fresh:
  assumes "joystick js = Some d" "current_data js = \<lparr>axes = [], buttons = []\<rparr>"
  shows "getData (initJoystick js) = \<lparr>axes = replicate (num_axes d) 0, buttons = replicate (num_buttons d) False\<rparr>"
  using assms by (simp add: initJoystick_def getData_def vector_resize_empty)

subsection \<open>The invariant of the axes\<close>

lemma axes_ok_initJoystick: "axes_ok js \<Longrightarrow> axes_ok (initJoystick js)"
  using set_vector_resize [of _ "0::rat"]
  by (fastforce simp: axes_ok_def initJoystick_def split: option.splits)

lemma axes_ok_handleAxisEvent: "axes_ok js \<Longrightarrow> axes_ok (handleAxisEvent js e)"
proof -
  assume ok: "axes_ok js"
  have v: "- 1 \<le> normalizeAxis r \<and> normalizeAxis r \<le> 1 \<and> (\<bar>normalizeAxis r\<bar> < DEADZONE \<longrightarrow> normalizeAxis r = 0)" for r
    using normalizeAxis_range [of r] normalizeAxis_deadzone [of r] by blast
  show ?thesis
    using ok v [of "raw_value e"] set_update_subset_insert [of "axes (current_data js)" "unat (axis e)" "normalizeAxis (raw_value e)"]
    unfolding axes_ok_def handleAxisEvent_def Let_def
    by auto
qed

lemma axes_ok_handleButtonEvent: "axes_ok js \<Longrightarrow> axes_ok (handleButtonEvent js e)"
  by (simp add: axes_ok_def handleButtonEvent_def)

lemma axes_ok_joystick_update: "axes_ok (js\<lparr>joystick := h\<rparr>) = axes_ok js"
  by (simp add: axes_ok_def)

lemma axes_ok_dispatch: "axes_ok js \<Longrightarrow> axes_ok (dispatch sdl_open js ev)"
proof (cases ev)
  case (SDL_JOYDEVICEADDED w)
  assume "axes_ok js"
  then show ?thesis
    using axes_ok_initJoystick [of "js\<lparr>joystick := sdl_open w\<rparr>"]
    by (simp add: SDL_JOYDEVICEADDED Let_def axes_ok_joystick_update)
next
  case (SDL_JOYDEVICEREMOVED w)
  assume "axes_ok js"
  then show ?thesis
    by (simp add: SDL_JOYDEVICEREMOVED axes_ok_def split: option.splits)
qed (simp_all add: axes_ok_handleAxisEvent axes_ok_handleButtonEvent)

lemma axes_ok_drain: "axes_ok js \<Longrightarrow> axes_ok (drain js queue)"
  by (induction js queue rule: drain.induct) (simp_all add: axes_ok_dispatch)

lemma axes_ok_eventLoop: "axes_ok js \<Longrightarrow> axes_ok (eventLoop js queues)"
  by (induction js queues rule: eventLoop.induct) (simp_all add: axes_ok_drain)

lemma axes_ok_new: "SimpleJoystick_new ok n sdl_open = Inr js \<Longrightarrow> axes_ok js"
proof -
  assume a: "SimpleJoystick_new ok n sdl_open = Inr js"
  define js0 where "js0 = \<lparr>joystick = sdl_open 0, current_data = \<lparr>axes = [], buttons = []\<rparr>,
                   running = False, cout = []\<rparr>"
  have "axes_ok js0" by (simp add: axes_ok_def js0_def)
  then have "axes_ok (initJoystick js0)" by (rule axes_ok_initJoystick)
  then show ?thesis
    using a by (auto simp: SimpleJoystick_new_def Let_def axes_ok_def js0_def split: if_splits)
qed

lemma DEADZONE_above_tenth: "1 / 10 < DEADZONE"
  by (simp add: DEADZONE_value)

section \<open>Properties of the main loop\<close>

lemma button_loop_total:
  assumes "length bs \<le> length prev"
  shows "button_loop bs prev i =
           Inr (concat (map (\<lambda>j. if bs ! j \<and> \<not> prev ! j then button_command j else []) [i..<length bs]))"
  using assms
proof (induction bs prev i rule: button_loop.induct)
  case (1 bs prev i)
  show ?case
  proof (cases "i < length bs")
    case True
    then have up: "[i..<length bs] = i # [Suc i..<length bs]"
      by (simp add: upt_conv_Cons)
    from True 1 show ?thesis
      by (subst button_loop.simps) (simp add: up)
  next
    case False
    then show ?thesis by (subst button_loop.simps) simp
  qed
qed

text \<open>The loop returns exactly when every pressed button has an index inside the
  previous button state; otherwise it reads past the end.\<close>

lemma button_loop_defined:
  assumes "\<forall>j < length bs. bs ! j \<longrightarrow> j < length prev"
  shows "button_loop bs prev i =
           Inr (concat (map (\<lambda>j. if bs ! j \<and> \<not> prev ! j then button_command j else []) [i..<length bs]))"
  using assms
proof (induction bs prev i rule: button_loop.induct)
  case (1 bs prev i)
  show ?case
  proof (cases "i < length bs")
    case True
    then have up: "[i..<length bs] = i # [Suc i..<length bs]"
      by (simp add: upt_conv_Cons)
    have inside: "i < length prev" if "bs ! i"
      using that True "1.prems" by blast
    from True 1 inside show ?thesis
      by (subst button_loop.simps) (simp add: up)
  next
    case False
    then show ?thesis by (subst button_loop.simps) simp
  qed
qed

lemma button_loop_undefined:
  assumes "i \<le> j" "j < length bs" "bs ! j" "\<not> j < length prev"
  shows "\<exists>k. button_loop bs prev i = Inl (Out_of_bounds k)"
  using assms
proof (induction bs prev i rule: button_loop.induct)
  case (1 bs prev i)
  have il: "i < length bs" using "1.prems" by linarith
  show ?case
  proof (cases "i = j")
    case True
    then show ?thesis
      using "1.prems" by (subst button_loop.simps) simp
  next
    case False
    then have sj: "Suc i \<le> j" using "1.prems" by linarith
    show ?thesis
    proof (cases "bs ! i")
      case b: True
      show ?thesis
      proof (cases "i < length prev")
        case True
        then obtain k where "button_loop bs prev (Suc i) = Inl (Out_of_bounds k)"
          using "1.IH"(1) [OF il b True sj "1.prems"(2-4)] by blast
        then show ?thesis
          using il b True by (subst button_loop.simps) simp
      next
        case False
        then show ?thesis
          using il b by (subst button_loop.simps) simp
      qed
    next
      case b: False
      then obtain k where "button_loop bs prev (Suc i) = Inl (Out_of_bounds k)"
        using "1.IH"(2) [OF il b sj "1.prems"(2-4)] by blast
      then show ?thesis
        using il b by (subst button_loop.simps) simp
    qed
  qed
qed

lemma button_command_count:
  assumes "i < 4"
  shows "count_list (button_command j) (hd (button_command i)) = (if j = i then 1 else 0)"
proof -
  from assms consider "i = 0" | "i = 1" | "i = 2" | "i = 3" by linarith
  then show ?thesis
    by cases (simp_all add: button_command_def)
qed

lemma count_list_concat_upt:
  "count_list (concat (map f [i..<n])) x = (\<Sum>j = i..<n. count_list (f j) x)"
proof (induction n)
  case 0
  then show ?case by simp
next
  case (Suc n)
  then show ?case by (cases "i \<le> n") simp_all
qed

lemma edge_count:
  assumes "i < 4" "i < n"
  shows "count_list (concat (map (\<lambda>j. if bs ! j \<and> \<not> prev ! j then button_command j else []) [0..<n]))
           (hd (button_command i)) = (if bs ! i \<and> \<not> prev ! i then 1 else 0)"
proof -
  have "(\<Sum>j = 0..<n. count_list (if bs ! j \<and> \<not> prev ! j then button_command j else []) (hd (button_command i)))
      = (\<Sum>j = 0..<n. if j = i then (if bs ! i \<and> \<not> prev ! i then 1 else 0) else 0)"
    using assms(1) by (intro sum.cong) (auto simp: button_command_count)
  also have "\<dots> = (if bs ! i \<and> \<not> prev ! i then 1 else 0)"
    using assms(2) by (simp add: sum.delta)
  finally show ?thesis by (simp add: count_list_concat_upt)
qed

lemma button_loop_same: "button_loop bs bs 0 = Inr []"
  by (simp add: button_loop_total)

lemma main_iteration_stopped: "\<not> isRunning js \<Longrightarrow> main_iteration js ms = Inr (ms, [])"
  by (simp add: main_iteration_def)

lemma main_iteration_first:
  assumes "isRunning js" "last_button_state ms = None"
  shows "main_iteration js ms =
           Inr (ms\<lparr>last_button_state := Some (buttons (getData js))\<rparr>, [Status (getData js)])"
  using assms by (simp add: main_iteration_def Let_def button_loop_same)


lemma main_iteration_result:
  assumes "isRunning js" "main_iteration js ms = Inr (ms', out)"
  shows "ms' = ms\<lparr>last_button_state := Some (buttons (getData js))\<rparr>"
  using assms by (auto simp: main_iteration_def Let_def split: sum.splits)

lemma main_iteration_defined:
  assumes "isRunning js" "last_button_state ms = Some prev"
    "\<forall>j < length (buttons (getData js)). buttons (getData js) ! j \<longrightarrow> j < length prev"
  shows "main_iteration js ms =
           Inr (ms\<lparr>last_button_state := Some (buttons (getData js))\<rparr>,
                Status (getData js) #
                concat (map (\<lambda>i. if buttons (getData js) ! i \<and> \<not> prev ! i then button_command i else [])
                         [0..<length (buttons (getData js))]))"
  using assms(1,2) by (simp add: main_iteration_def Let_def button_loop_defined [OF assms(3)])

text \<open>What an iteration does to the previous button state: nothing when the joystick
  is not running; when it is running and the iteration returns, the buttons just read
  replace it after the status line is printed; and the iteration returns when every
  pressed button has an index inside the previous state, and does not otherwise.\<close>

lemma main_iteration_frame:
  "(\<not> isRunning js \<longrightarrow> main_iteration js ms = Inr (ms, [])) \<and>
   (isRunning js \<and> main_iteration js ms = Inr (ms', out) \<longrightarrow>
      ms' = ms\<lparr>last_button_state := Some (buttons (getData js))\<rparr> \<and> hd out = Status (getData js)) \<and>
   (isRunning js \<and>
    (\<forall>prev. last_button_state ms = Some prev \<longrightarrow>
       (\<forall>j < length (buttons (getData js)). buttons (getData js) ! j \<longrightarrow> j < length prev)) \<longrightarrow>
      (\<exists>commands. main_iteration js ms =
         Inr (ms\<lparr>last_button_state := Some (buttons (getData js))\<rparr>, Status (getData js) # commands)))"
proof (intro conjI impI)
  assume "\<not> isRunning js"
  then show "main_iteration js ms = Inr (ms, [])" by (rule main_iteration_stopped)
next
  assume "isRunning js \<and> main_iteration js ms = Inr (ms', out)"
  then show "ms' = ms\<lparr>last_button_state := Some (buttons (getData js))\<rparr>"
    using main_iteration_result by blast
next
  assume "isRunning js \<and> main_iteration js ms = Inr (ms', out)"
  then show "hd out = Status (getData js)"
    by (auto simp: main_iteration_def Let_def split: sum.splits)
next
  assume a: "isRunning js \<and>
    (\<forall>prev. last_button_state ms = Some prev \<longrightarrow>
       (\<forall>j < length (buttons (getData js)). buttons (getData js) ! j \<longrightarrow> j < length prev))"
  show "\<exists>commands. main_iteration js ms =
         Inr (ms\<lparr>last_button_state := Some (buttons (getData js))\<rparr>, Status (getData js) # commands)"
  proof (cases "last_button_state ms")
    case None
    then show ?thesis using a main_iteration_first [of js ms] by blast
  next
    case (Some prev)
    then show ?thesis using a main_iteration_defined [of js ms prev] by blast
  qed
qed

lemma main_iteration_undefined:
  assumes "isRunning js" "last_button_state ms = Some prev"
    "j < length (buttons (getData js))" "buttons (getData js) ! j" "\<not> j < length prev"
  shows "\<exists>k. main_iteration js ms = Inl (Out_of_bounds k)"
proof -
  obtain k where "button_loop (buttons (getData js)) prev 0 = Inl (Out_of_bounds k)"
    using button_loop_undefined [of 0 j "buttons (getData js)" prev] assms(3-5) by blast
  then show ?thesis
    using assms(1,2) by (simp add: main_iteration_def Let_def)
qed

section \<open>The claims\<close>

text \<open>
  C1, as stated, for every button index: it fails at index 4, which has no entry in the
  command table. The snapshot has button 4 pressed, the previous state has it released,
  and the iteration prints the status line and no command.
\<close>
theorem edge_detection_counterexample:
  "buttons (getData \<lparr>joystick = None, current_data = \<lparr>axes = [], buttons = [False, False, False, False, True]\<rparr>,
                     running = True, cout = []\<rparr>) ! 4 \<and>
   \<not> [False, False, False, False, False] ! 4 \<and>
   main_iteration
     \<lparr>joystick = None, current_data = \<lparr>axes = [], buttons = [False, False, False, False, True]\<rparr>,
      running = True, cout = []\<rparr>
     \<lparr>last_button_state = Some [False, False, False, False, False]\<rparr>
   = Inr (\<lparr>last_button_state = Some [False, False, False, False, True]\<rparr>,
          [Status \<lparr>axes = [], buttons = [False, False, False, False, True]\<rparr>])"
  by code_simp

text \<open>
  C1, for the indices that have a command: on an iteration with the joystick running,
  where the previous button state is \<open>prev\<close> and every button that is pressed now has an
  index inside \<open>prev\<close>, the iteration returns, and the command \<open>c\<close> of button \<open>i\<close> is
  printed exactly once when the button is pressed now and was not pressed in \<open>prev\<close>,
  and not at all otherwise: neither while the button is held nor when it is released.
\<close>

theorem edge_detection:
  assumes "isRunning js" "last_button_state ms = Some prev"
    "\<forall>j < length (buttons (getData js)). buttons (getData js) ! j \<longrightarrow> j < length prev"
    "i < length (buttons (getData js))" "button_command i = [c]"
  shows "\<exists>ms' out. main_iteration js ms = Inr (ms', out) \<and>
           count_list out c = (if buttons (getData js) ! i \<and> \<not> prev ! i then 1 else 0)"
proof -
  have i4: "i < 4"
    using assms(5) by (simp add: button_command_def split: if_splits)
  have c: "c = hd (button_command i)" "c \<noteq> Status (getData js)"
    using assms(5) by (auto simp: button_command_def split: if_splits)
  show ?thesis
    using edge_count [OF i4 assms(4), of "buttons (getData js)" prev] c
    by (simp add: main_iteration_defined [OF assms(1-3)])
qed

theorem edge_detection_witness:
  "main_iteration
     \<lparr>joystick = None, current_data = \<lparr>axes = [0, 0], buttons = [True, False, False, False]\<rparr>,
      running = True, cout = []\<rparr>
     \<lparr>last_button_state = Some [False]\<rparr>
   = Inr (\<lparr>last_button_state = Some [True, False, False, False]\<rparr>,
          [Status \<lparr>axes = [0, 0], buttons = [True, False, False, False]\<rparr>, Command 3]) \<and>
   count_list [Status \<lparr>axes = [0, 0], buttons = [True, False, False, False]\<rparr>, Command 3] (Command 3) = 1"
proof -
  let ?js = "\<lparr>joystick = None, current_data = \<lparr>axes = [0, 0], buttons = [True, False, False, False]\<rparr>,
      running = True, cout = []\<rparr>"
  let ?ms = "\<lparr>last_button_state = Some [False]\<rparr>"
  have b: "\<forall>j < length (buttons (getData ?js)). buttons (getData ?js) ! j \<longrightarrow> j < length [False]"
    by (simp add: getData_def nth_Cons split: nat.splits)
  have h: "isRunning ?js" "last_button_state ?ms = Some [False]"
    by (simp_all add: isRunning_def)
  have h': "0 < length (buttons (getData ?js))" "button_command 0 = [Command 3]"
    by (simp_all add: getData_def button_command_def)
  have e: "main_iteration ?js ?ms = Inr (\<lparr>last_button_state = Some [True, False, False, False]\<rparr>,
          [Status \<lparr>axes = [0, 0], buttons = [True, False, False, False]\<rparr>, Command 3])"
    by code_simp
  show ?thesis
    using edge_detection [OF h b h'] e by simp
qed

text \<open>
  C2. For every raw axis value, a 16-bit signed integer and so between -32768 and 32767,
  the normalisation of \<open>handleAxisEvent\<close> returns a value between -1 and 1; it returns
  exactly 0 whenever the quotient by 32767, clamped to the unit interval, is below one
  tenth in magnitude; and in every case it returns the binary32 value nearest to the
  result of the contract computed exactly: divide by 32767, clamp, snap to zero below
  the deadzone. It is a function of the raw value alone.
\<close>
theorem normalizeAxis_contract:
  "- 1 \<le> normalizeAxis raw \<and> normalizeAxis raw \<le> 1 \<and>
   (\<bar>clamp_unit (of_int (sint raw) / 32767)\<bar> < 1 / 10 \<longrightarrow> normalizeAxis raw = 0) \<and>
   normalizeAxis raw = f32_round (normalizeAxis_spec (sint raw))"
proof -
  have "normalizeAxis raw = 0" if "\<bar>clamp_unit (of_int (sint raw) / 32767)\<bar> < 1 / 10"
    using that normalizeAxis_refines [of raw]
    by (simp add: normalizeAxis_spec_def Let_def f32_round_zero)
  then show ?thesis
    using normalizeAxis_range [of raw] normalizeAxis_refines [of raw] by blast
qed

theorem normalizeAxis_contract_witness:
  "\<bar>clamp_unit (of_int (sint (1000 :: 16 word)) / 32767)\<bar> < 1 / 10 \<and> normalizeAxis 1000 = 0 \<and>
   - 1 \<le> normalizeAxis 1000 \<and> normalizeAxis 1000 \<le> 1"
  using normalizeAxis_contract [of 1000] by (simp add: clamp_unit_def)



text \<open>
  C4. The store is not reset when a device is opened after another one. A pad with two
  axes and four buttons is open at start; axis 0 moves to 16000 and button 1 goes down;
  the pad is removed and a pad with the same counts is attached. \<open>initJoystick\<close> resizes
  both vectors to the lengths they already have, so a read after it still returns the
  old axis value and the pressed button.
\<close>
theorem initJoystick_keeps_old_values:
  "(case SimpleJoystick_new True 1 (\<lambda>_. Some \<lparr>name = ''pad'', instance_id = 7, num_axes = 2, num_buttons = 4\<rparr>) of
      Inl e \<Rightarrow> None
    | Inr js \<Rightarrow>
        Some (getData (drain js
          [(\<lambda>_. Some \<lparr>name = ''pad'', instance_id = 7, num_axes = 2, num_buttons = 4\<rparr>,
              SDL_JOYAXISMOTION \<lparr>axis = 0, raw_value = 16000\<rparr>),
           (\<lambda>_. Some \<lparr>name = ''pad'', instance_id = 7, num_axes = 2, num_buttons = 4\<rparr>,
              SDL_JOYBUTTONDOWN \<lparr>button = 1, state = SDL_PRESSED\<rparr>),
           (\<lambda>_. None, SDL_JOYDEVICEREMOVED 7),
           (\<lambda>_. Some \<lparr>name = ''pad'', instance_id = 8, num_axes = 2, num_buttons = 4\<rparr>,
              SDL_JOYDEVICEADDED 0)])))
   = Some \<lparr>axes = [4096125 / 8388608, 0], buttons = [False, True, False, False]\<rparr>"
  by code_simp

text \<open>
  C5. An axis event whose axis index is not below the length of the stored axes leaves
  the whole object as it is, and so does a button event, down or up, whose button index
  is not below the length of the stored buttons: nothing is stored, nothing is printed,
  and the handlers have no error result.
\<close>
theorem out_of_range_dropped:
  "(length (axes (current_data js)) \<le> unat (axis ea) \<longrightarrow>
      handleAxisEvent js ea = js \<and> dispatch sdl_open js (SDL_JOYAXISMOTION ea) = js) \<and>
   (length (buttons (current_data js)) \<le> unat (button eb) \<longrightarrow>
      handleButtonEvent js eb = js \<and> dispatch sdl_open js (SDL_JOYBUTTONDOWN eb) = js \<and>
      dispatch sdl_open js (SDL_JOYBUTTONUP eb) = js)"
  by (simp add: handleAxisEvent_def handleButtonEvent_def Let_def)

theorem out_of_range_dropped_witness:
  "length (axes (current_data
      \<lparr>joystick = Some \<lparr>name = ''pad'', instance_id = 7, num_axes = 2, num_buttons = 4\<rparr>,
       current_data = \<lparr>axes = [1 / 2, 0], buttons = [False, True, False, False]\<rparr>,
       running = True, cout = []\<rparr>)) \<le> unat (axis \<lparr>axis = 2, raw_value = 32767\<rparr>) \<and>
   length (buttons (current_data
      \<lparr>joystick = Some \<lparr>name = ''pad'', instance_id = 7, num_axes = 2, num_buttons = 4\<rparr>,
       current_data = \<lparr>axes = [1 / 2, 0], buttons = [False, True, False, False]\<rparr>,
       running = True, cout = []\<rparr>)) \<le> unat (button \<lparr>button = 4, state = SDL_PRESSED\<rparr>) \<and>
   handleAxisEvent
      \<lparr>joystick = Some \<lparr>name = ''pad'', instance_id = 7, num_axes = 2, num_buttons = 4\<rparr>,
       current_data = \<lparr>axes = [1 / 2, 0], buttons = [False, True, False, False]\<rparr>,
       running = True, cout = []\<rparr> \<lparr>axis = 2, raw_value = 32767\<rparr>
    = \<lparr>joystick = Some \<lparr>name = ''pad'', instance_id = 7, num_axes = 2, num_buttons = 4\<rparr>,
       current_data = \<lparr>axes = [1 / 2, 0], buttons = [False, True, False, False]\<rparr>,
       running = True, cout = []\<rparr> \<and>
   handleButtonEvent
      \<lparr>joystick = Some \<lparr>name = ''pad'', instance_id = 7, num_axes = 2, num_buttons = 4\<rparr>,
       current_data = \<lparr>axes = [1 / 2, 0], buttons = [False, True, False, False]\<rparr>,
       running = True, cout = []\<rparr> \<lparr>button = 4, state = SDL_PRESSED\<rparr>
    = \<lparr>joystick = Some \<lparr>name = ''pad'', instance_id = 7, num_axes = 2, num_buttons = 4\<rparr>,
       current_data = \<lparr>axes = [1 / 2, 0], buttons = [False, True, False, False]\<rparr>,
       running = True, cout = []\<rparr>"
  using out_of_range_dropped
    [where js = "\<lparr>joystick = Some \<lparr>name = ''pad'', instance_id = 7, num_axes = 2, num_buttons = 4\<rparr>,
       current_data = \<lparr>axes = [1 / 2, 0], buttons = [False, True, False, False]\<rparr>,
       running = True, cout = []\<rparr>" and ea = "\<lparr>axis = 2, raw_value = 32767\<rparr>"
       and eb = "\<lparr>button = 4, state = SDL_PRESSED\<rparr>"]
  by simp

text \<open>
  C6. Every stored axis value lies between -1 and 1 and is 0 when its magnitude is below
  the deadzone. This holds for the object the constructor returns, and each operation
  of the object preserves it: \<open>initJoystick\<close>, the two handlers, the dispatch of any
  event, a drained queue, the event loop and \<open>stop\<close>. The deadzone of the code is the
  binary32 value of 0.1, which is above one tenth, so the same holds of one tenth.
\<close>
theorem axes_invariant:
  "(SimpleJoystick_new init_ok n sdl_open = Inr js0 \<longrightarrow> axes_ok js0) \<and>
   (axes_ok js \<longrightarrow>
      axes_ok (initJoystick js) \<and> axes_ok (handleAxisEvent js ea) \<and>
      axes_ok (handleButtonEvent js eb) \<and> axes_ok (dispatch sdl_open js ev) \<and>
      axes_ok (drain js queue) \<and> axes_ok (eventLoop js queues) \<and> axes_ok (stop js) \<and>
      (\<forall>v \<in> set (axes (getData js)). - 1 \<le> v \<and> v \<le> 1 \<and> (\<bar>v\<bar> < 1 / 10 \<longrightarrow> v = 0)))"
proof -
  have "axes_ok (stop js)" if "axes_ok js"
    using that by (simp add: axes_ok_def stop_def)
  moreover have "\<forall>v \<in> set (axes (getData js)). - 1 \<le> v \<and> v \<le> 1 \<and> (\<bar>v\<bar> < 1 / 10 \<longrightarrow> v = 0)"
    if "axes_ok js"
  proof
    fix v assume "v \<in> set (axes (getData js))"
    then have "- 1 \<le> v \<and> v \<le> 1 \<and> (\<bar>v\<bar> < DEADZONE \<longrightarrow> v = 0)"
      using that by (simp add: axes_ok_def getData_def)
    then show "- 1 \<le> v \<and> v \<le> 1 \<and> (\<bar>v\<bar> < 1 / 10 \<longrightarrow> v = 0)"
      using DEADZONE_above_tenth by linarith
  qed
  moreover have "axes_ok js0" if "SimpleJoystick_new init_ok n sdl_open = Inr js0"
    using that by (rule axes_ok_new)
  ultimately show ?thesis
    by (simp add: axes_ok_initJoystick axes_ok_handleAxisEvent axes_ok_handleButtonEvent
      axes_ok_dispatch axes_ok_drain axes_ok_eventLoop)
qed


theorem axes_invariant_witness:
  "SimpleJoystick_new True 1 (\<lambda>_. Some \<lparr>name = ''pad'', instance_id = 7, num_axes = 2, num_buttons = 4\<rparr>)
     = Inr \<lparr>joystick = Some \<lparr>name = ''pad'', instance_id = 7, num_axes = 2, num_buttons = 4\<rparr>,
            current_data = \<lparr>axes = [0, 0], buttons = [False, False, False, False]\<rparr>,
            running = True,
            cout = [Joystick_connected \<lparr>name = ''pad'', instance_id = 7, num_axes = 2, num_buttons = 4\<rparr>]\<rparr> \<and>
   axes_ok \<lparr>joystick = Some \<lparr>name = ''pad'', instance_id = 7, num_axes = 2, num_buttons = 4\<rparr>,
            current_data = \<lparr>axes = [0, 0], buttons = [False, False, False, False]\<rparr>,
            running = True,
            cout = [Joystick_connected \<lparr>name = ''pad'', instance_id = 7, num_axes = 2, num_buttons = 4\<rparr>]\<rparr> \<and>
   axes_ok (handleAxisEvent
           \<lparr>joystick = Some \<lparr>name = ''pad'', instance_id = 7, num_axes = 2, num_buttons = 4\<rparr>,
            current_data = \<lparr>axes = [0, 0], buttons = [False, False, False, False]\<rparr>,
            running = True,
            cout = [Joystick_connected \<lparr>name = ''pad'', instance_id = 7, num_axes = 2, num_buttons = 4\<rparr>]\<rparr>
           \<lparr>axis = 0, raw_value = 16000\<rparr>) \<and>
   handleAxisEvent
           \<lparr>joystick = Some \<lparr>name = ''pad'', instance_id = 7, num_axes = 2, num_buttons = 4\<rparr>,
            current_data = \<lparr>axes = [0, 0], buttons = [False, False, False, False]\<rparr>,
            running = True,
            cout = [Joystick_connected \<lparr>name = ''pad'', instance_id = 7, num_axes = 2, num_buttons = 4\<rparr>]\<rparr>
           \<lparr>axis = 0, raw_value = 16000\<rparr>
     = \<lparr>joystick = Some \<lparr>name = ''pad'', instance_id = 7, num_axes = 2, num_buttons = 4\<rparr>,
            current_data = \<lparr>axes = [4096125 / 8388608, 0], buttons = [False, False, False, False]\<rparr>,
            running = True,
            cout = [Joystick_connected \<lparr>name = ''pad'', instance_id = 7, num_axes = 2, num_buttons = 4\<rparr>]\<rparr>"
proof -
  let ?pad = "\<lparr>name = ''pad'', instance_id = 7, num_axes = 2, num_buttons = 4\<rparr>"
  let ?js = "\<lparr>joystick = Some ?pad,
            current_data = \<lparr>axes = [0, 0], buttons = [False, False, False, False]\<rparr>,
            running = True, cout = [Joystick_connected ?pad]\<rparr>"
  have new: "SimpleJoystick_new True 1 (\<lambda>_. Some ?pad) = Inr ?js"
    by code_simp
  have ok: "axes_ok ?js"
    by (rule axes_invariant [THEN conjunct1, THEN mp, OF new])
  have step: "axes_ok (handleAxisEvent ?js \<lparr>axis = 0, raw_value = 16000\<rparr>)"
    by (rule axes_invariant [THEN conjunct2, THEN mp, OF ok, THEN conjunct2, THEN conjunct1])
  have val: "handleAxisEvent ?js \<lparr>axis = 0, raw_value = 16000\<rparr>
     = \<lparr>joystick = Some ?pad,
            current_data = \<lparr>axes = [4096125 / 8388608, 0], buttons = [False, False, False, False]\<rparr>,
            running = True, cout = [Joystick_connected ?pad]\<rparr>"
    by code_simp
  show ?thesis
    by (intro conjI new ok step val)
qed

text \<open>
  C7. An iteration with the joystick running does not always reach the update of the
  previous button state. The program starts with no device, so the first iteration
  initialises the previous state with no buttons. A pad with four buttons is attached
  and its button 1 goes down before the next iteration; that iteration finds button 1
  pressed and reads \<open>last_button_state[1]\<close> past the end of the empty vector.
\<close>

theorem running_tick_reads_past_previous:
  "(case SimpleJoystick_new True 0 (\<lambda>_. None) of
      Inl e \<Rightarrow> None
    | Inr js \<Rightarrow>
        Some (main_iteration js \<lparr>last_button_state = None\<rparr>,
              main_iteration
                (drain js
                  [(\<lambda>_. Some \<lparr>name = ''pad'', instance_id = 7, num_axes = 2, num_buttons = 4\<rparr>,
                      SDL_JOYDEVICEADDED 0),
                   (\<lambda>_. Some \<lparr>name = ''pad'', instance_id = 7, num_axes = 2, num_buttons = 4\<rparr>,
                      SDL_JOYBUTTONDOWN \<lparr>button = 1, state = SDL_PRESSED\<rparr>)])
                \<lparr>last_button_state = Some []\<rparr>))
   = Some (Inr (\<lparr>last_button_state = Some []\<rparr>, [Status \<lparr>axes = [], buttons = []\<rparr>]),
           Inl (Out_of_bounds 1))"
  by code_simp

text \<open>
  C8. A device-removed event whose instance id differs from the id of the open device
  leaves the whole object as it is: the handle stays, the stored data and the printed
  lines are unchanged.
\<close>
theorem foreign_detach_ignored:
  assumes "joystick js = Some d" "which \<noteq> instance_id d"
  shows "dispatch sdl_open js (SDL_JOYDEVICEREMOVED which) = js"
  using assms by simp

theorem foreign_detach_ignored_witness:
  "dispatch (\<lambda>_. None)
     \<lparr>joystick = Some \<lparr>name = ''pad'', instance_id = 7, num_axes = 2, num_buttons = 4\<rparr>,
      current_data = \<lparr>axes = [1 / 2, 0], buttons = [False, True, False, False]\<rparr>,
      running = True, cout = []\<rparr> (SDL_JOYDEVICEREMOVED 3)
   = \<lparr>joystick = Some \<lparr>name = ''pad'', instance_id = 7, num_axes = 2, num_buttons = 4\<rparr>,
      current_data = \<lparr>axes = [1 / 2, 0], buttons = [False, True, False, False]\<rparr>,
      running = True, cout = []\<rparr>"
proof -
  let ?pad = "\<lparr>name = ''pad'', instance_id = 7, num_axes = 2, num_buttons = 4\<rparr>"
  let ?js = "\<lparr>joystick = Some ?pad,
      current_data = \<lparr>axes = [1 / 2, 0], buttons = [False, True, False, False]\<rparr>,
      running = True, cout = []\<rparr>"
  have h: "joystick ?js = Some ?pad" "(3 :: 32 word) \<noteq> instance_id ?pad"
    by simp_all
  show ?thesis
    by (rule foreign_detach_ignored [OF h])
qed

text \<open>
  C9. Handling an axis event changes at most the stored value of that axis: the lengths
  of both vectors, all buttons, every other axis value, the handle, the running flag and
  the printed lines stay, and with a device open and the axis index in range the value
  of that axis becomes the normalised raw value. The same holds of a button event and
  the buttons, where the stored value becomes whether the state is pressed.
\<close>
theorem single_index_written:
  "(let js' = handleAxisEvent js ea
    in length (axes (current_data js')) = length (axes (current_data js)) \<and>
       buttons (current_data js') = buttons (current_data js) \<and>
       (\<forall>k. k \<noteq> unat (axis ea) \<longrightarrow> axes (current_data js') ! k = axes (current_data js) ! k) \<and>
       joystick js' = joystick js \<and> running js' = running js \<and> cout js' = cout js \<and>
       (joystick js \<noteq> None \<and> unat (axis ea) < length (axes (current_data js)) \<longrightarrow>
          axes (current_data js') ! unat (axis ea) = normalizeAxis (raw_value ea))) \<and>
   (let js' = handleButtonEvent js eb
    in length (buttons (current_data js')) = length (buttons (current_data js)) \<and>
       axes (current_data js') = axes (current_data js) \<and>
       (\<forall>k. k \<noteq> unat (button eb) \<longrightarrow> buttons (current_data js') ! k = buttons (current_data js) ! k) \<and>
       joystick js' = joystick js \<and> running js' = running js \<and> cout js' = cout js \<and>
       (joystick js \<noteq> None \<and> unat (button eb) < length (buttons (current_data js)) \<longrightarrow>
          buttons (current_data js') ! unat (button eb) = (state eb = SDL_PRESSED)))"
  by (simp add: handleAxisEvent_def handleButtonEvent_def Let_def)

theorem single_index_written_witness:
  "axes (current_data (handleAxisEvent
      \<lparr>joystick = Some \<lparr>name = ''pad'', instance_id = 7, num_axes = 2, num_buttons = 4\<rparr>,
       current_data = \<lparr>axes = [1 / 2, 0], buttons = [False, True, False, False]\<rparr>,
       running = True, cout = []\<rparr> \<lparr>axis = 1, raw_value = 32767\<rparr>)) ! 1 = normalizeAxis 32767 \<and>
   axes (current_data (handleAxisEvent
      \<lparr>joystick = Some \<lparr>name = ''pad'', instance_id = 7, num_axes = 2, num_buttons = 4\<rparr>,
       current_data = \<lparr>axes = [1 / 2, 0], buttons = [False, True, False, False]\<rparr>,
       running = True, cout = []\<rparr> \<lparr>axis = 1, raw_value = 32767\<rparr>)) ! 0 = 1 / 2 \<and>
   buttons (current_data (handleButtonEvent
      \<lparr>joystick = Some \<lparr>name = ''pad'', instance_id = 7, num_axes = 2, num_buttons = 4\<rparr>,
       current_data = \<lparr>axes = [1 / 2, 0], buttons = [False, True, False, False]\<rparr>,
       running = True, cout = []\<rparr> \<lparr>button = 2, state = SDL_PRESSED\<rparr>)) ! 2 = True \<and>
   buttons (current_data (handleButtonEvent
      \<lparr>joystick = Some \<lparr>name = ''pad'', instance_id = 7, num_axes = 2, num_buttons = 4\<rparr>,
       current_data = \<lparr>axes = [1 / 2, 0], buttons = [False, True, False, False]\<rparr>,
       running = True, cout = []\<rparr> \<lparr>button = 2, state = SDL_PRESSED\<rparr>)) ! 1 = True"
proof -
  let ?js = "\<lparr>joystick = Some \<lparr>name = ''pad'', instance_id = 7, num_axes = 2, num_buttons = 4\<rparr>,
       current_data = \<lparr>axes = [1 / 2, 0], buttons = [False, True, False, False]\<rparr>,
       running = True, cout = []\<rparr>"
  let ?ea = "\<lparr>axis = 1, raw_value = 32767\<rparr>"
  let ?eb = "\<lparr>button = 2, state = SDL_PRESSED\<rparr>"
  note w = single_index_written [where js = ?js and ea = ?ea and eb = ?eb, unfolded Let_def]
  have ha: "joystick ?js \<noteq> None \<and> unat (axis ?ea) < length (axes (current_data ?js))"
    and hb: "joystick ?js \<noteq> None \<and> unat (button ?eb) < length (buttons (current_data ?js))"
    and k0: "(0::nat) \<noteq> unat (axis ?ea)" and k1: "(1::nat) \<noteq> unat (button ?eb)"
    by simp_all
  have a1: "axes (current_data (handleAxisEvent ?js ?ea)) ! unat (axis ?ea) = normalizeAxis (raw_value ?ea)"
    using w ha by blast
  have a0: "axes (current_data (handleAxisEvent ?js ?ea)) ! 0 = axes (current_data ?js) ! 0"
    using w k0 by blast
  have b2: "buttons (current_data (handleButtonEvent ?js ?eb)) ! unat (button ?eb) = (state ?eb = SDL_PRESSED)"
    using w hb by blast
  have b1: "buttons (current_data (handleButtonEvent ?js ?eb)) ! 1 = buttons (current_data ?js) ! 1"
    using w k1 by blast
  show ?thesis
    using a1 a0 b2 b1 by simp
qed

text \<open>
  C10. On the first iteration with the joystick running, the static previous button
  state has not been initialised; it is initialised with the buttons just read, so the
  iteration prints the status line and no command, whatever buttons are pressed, and
  the previous button state afterwards is the buttons read.
\<close>
theorem first_tick_no_command:
  assumes "isRunning js" "last_button_state ms = None"
  shows "main_iteration js ms =
           Inr (ms\<lparr>last_button_state := Some (buttons (getData js))\<rparr>, [Status (getData js)])"
  using assms by (rule main_iteration_first)

theorem first_tick_no_command_witness:
  "main_iteration
     \<lparr>joystick = None, current_data = \<lparr>axes = [0, 0], buttons = [True, False, True, False]\<rparr>,
      running = True, cout = []\<rparr>
     \<lparr>last_button_state = None\<rparr>
   = Inr (\<lparr>last_button_state = Some [True, False, True, False]\<rparr>,
          [Status \<lparr>axes = [0, 0], buttons = [True, False, True, False]\<rparr>])"
proof -
  let ?js = "\<lparr>joystick = None, current_data = \<lparr>axes = [0, 0], buttons = [True, False, True, False]\<rparr>,
      running = True, cout = []\<rparr>"
  have h: "isRunning ?js" "last_button_state \<lparr>last_button_state = None\<rparr> = None"
    by (simp_all add: isRunning_def)
  show ?thesis
    using first_tick_no_command [OF h] by (simp add: getData_def)
qed

end
